theory Spec2Isabelle
  imports Complex_Main
begin

section \<open>JavaScript numbers\<close>

text \<open>
  The program computes with JavaScript numbers. A finite number is modelled by the real
  it denotes, so the arithmetic of finite numbers is exact: rounding and overflow are
  outside the model, and the two zeros are one value (a zero divisor counts as \<open>+0\<close>).
  The three special values are kept, with the rules of the language: every operation
  with a \<open>NaN\<close> operand is \<open>NaN\<close>, every comparison with \<open>NaN\<close> is false, and reading an
  absent field in an arithmetic position gives \<open>NaN\<close>.
\<close>

datatype jsnum = Fin real | PInf | NInf | NaN

fun jneg :: "jsnum \<Rightarrow> jsnum" where
  "jneg (Fin a) = Fin (- a)"
| "jneg PInf = NInf"
| "jneg NInf = PInf"
| "jneg NaN = NaN"

fun jadd :: "jsnum \<Rightarrow> jsnum \<Rightarrow> jsnum" where
  "jadd NaN b = NaN"
| "jadd a NaN = NaN"
| "jadd (Fin a) (Fin b) = Fin (a + b)"
| "jadd PInf NInf = NaN"
| "jadd NInf PInf = NaN"
| "jadd PInf b = PInf"
| "jadd a PInf = PInf"
| "jadd NInf b = NInf"
| "jadd a NInf = NInf"

definition jsub :: "jsnum \<Rightarrow> jsnum \<Rightarrow> jsnum" where
  "jsub a b = jadd a (jneg b)"

fun jsgn :: "jsnum \<Rightarrow> int" where
  "jsgn (Fin a) = (if 0 < a then 1 else if a < 0 then - 1 else 0)"
| "jsgn PInf = 1"
| "jsgn NInf = - 1"
| "jsgn NaN = 0"

fun jmul :: "jsnum \<Rightarrow> jsnum \<Rightarrow> jsnum" where
  "jmul NaN b = NaN"
| "jmul a NaN = NaN"
| "jmul (Fin a) (Fin b) = Fin (a * b)"
| "jmul a b = (let s = jsgn a * jsgn b in if s = 0 then NaN else if 0 < s then PInf else NInf)"

fun jdiv :: "jsnum \<Rightarrow> jsnum \<Rightarrow> jsnum" where
  "jdiv NaN b = NaN"
| "jdiv a NaN = NaN"
| "jdiv (Fin a) (Fin b) =
     (if b \<noteq> 0 then Fin (a / b) else if a = 0 then NaN else if 0 < a then PInf else NInf)"
| "jdiv (Fin a) b = Fin 0"
| "jdiv PInf (Fin b) = (if 0 \<le> b then PInf else NInf)"
| "jdiv NInf (Fin b) = (if 0 \<le> b then NInf else PInf)"
| "jdiv a b = NaN"

text \<open>\<open>a < b\<close>; the source's \<open>a > b\<close> is \<open>jlt b a\<close>.\<close>

fun jlt :: "jsnum \<Rightarrow> jsnum \<Rightarrow> bool" where
  "jlt NaN b = False"
| "jlt a NaN = False"
| "jlt (Fin a) (Fin b) = (a < b)"
| "jlt NInf NInf = False"
| "jlt NInf b = True"
| "jlt a NInf = False"
| "jlt PInf b = False"
| "jlt a PInf = True"

definition jgt :: "jsnum \<Rightarrow> jsnum \<Rightarrow> bool" where
  "jgt a b = jlt b a"

text \<open>\<open>a % b\<close>: the remainder of the truncated quotient, with the sign of the dividend.\<close>

definition trunc :: "real \<Rightarrow> int" where
  "trunc r = (if 0 \<le> r then \<lfloor>r\<rfloor> else \<lceil>r\<rceil>)"

fun jrem :: "jsnum \<Rightarrow> jsnum \<Rightarrow> jsnum" where
  "jrem (Fin a) (Fin b) = (if b = 0 then NaN else Fin (a - b * of_int (trunc (a / b))))"
| "jrem (Fin a) PInf = Fin a"
| "jrem (Fin a) NInf = Fin a"
| "jrem a b = NaN"

definition Math_min :: "jsnum \<Rightarrow> jsnum \<Rightarrow> jsnum" where
  "Math_min a b = (if a = NaN \<or> b = NaN then NaN else if jlt b a then b else a)"

definition Math_max :: "jsnum \<Rightarrow> jsnum \<Rightarrow> jsnum" where
  "Math_max a b = (if a = NaN \<or> b = NaN then NaN else if jlt a b then b else a)"

fun Math_abs :: "jsnum \<Rightarrow> jsnum" where
  "Math_abs (Fin a) = Fin \<bar>a\<bar>"
| "Math_abs PInf = PInf"
| "Math_abs NInf = PInf"
| "Math_abs NaN = NaN"

fun Math_sin :: "jsnum \<Rightarrow> jsnum" where
  "Math_sin (Fin a) = Fin (sin a)"
| "Math_sin a = NaN"

definition Math_PI :: jsnum where
  "Math_PI = Fin pi"

definition atan2 :: "real \<Rightarrow> real \<Rightarrow> real" where
  "atan2 b a =
     (if 0 < a then arctan (b / a)
      else if a < 0 then (if 0 \<le> b then arctan (b / a) + pi else arctan (b / a) - pi)
      else if 0 < b then pi / 2 else if b < 0 then - (pi / 2) else 0)"

fun Math_atan2 :: "jsnum \<Rightarrow> jsnum \<Rightarrow> jsnum" where
  "Math_atan2 NaN a = NaN"
| "Math_atan2 b NaN = NaN"
| "Math_atan2 (Fin b) (Fin a) = Fin (atan2 b a)"
| "Math_atan2 (Fin b) PInf = Fin 0"
| "Math_atan2 (Fin b) NInf = (if 0 \<le> b then Fin pi else Fin (- pi))"
| "Math_atan2 PInf (Fin a) = Fin (pi / 2)"
| "Math_atan2 NInf (Fin a) = Fin (- (pi / 2))"
| "Math_atan2 PInf PInf = Fin (pi / 4)"
| "Math_atan2 PInf NInf = Fin (3 * pi / 4)"
| "Math_atan2 NInf PInf = Fin (- (pi / 4))"
| "Math_atan2 NInf NInf = Fin (- (3 * pi / 4))"

text \<open>A field of an object literal: \<open>None\<close> is \<open>undefined\<close>, which arithmetic reads as \<open>NaN\<close>.\<close>

fun num :: "real option \<Rightarrow> jsnum" where
  "num None = NaN"
| "num (Some r) = Fin r"

section \<open>The mode table\<close>

definition PHYSICS_FPS :: real where
  "PHYSICS_FPS = 60"

definition FIXED_DT :: real where
  "FIXED_DT = 1 / PHYSICS_FPS"

text \<open>
  One entry of \<open>MODES\<close>. The field \<open>vx\<close> of the source is \<open>m_vx\<close> here, to keep it apart
  from the player's \<open>vx\<close>; a field that an entry does not define is \<open>None\<close>.
\<close>

record ModeEntry =
  m_vx :: "real option"
  gravity :: "real option"
  miniGravity :: "real option"
  jump :: "real option"
  miniJump :: "real option"
  rotGround :: "real option"
  rotAir :: "real option"
  thrustHold :: "real option"
  thrustNoHold :: "real option"
  tiltMult :: "real option"
  rotSpeed :: "real option"
  vyClamp :: "real option"
  ampHold :: "real option"
  ampNoHold :: "real option"
  trailLen :: "real option"
  jumpBase :: "real option"
  jumpMax :: "real option"
  holdScale :: "real option"
  decay :: "real option"

definition noFields :: ModeEntry where
  "noFields = \<lparr> m_vx = None, gravity = None, miniGravity = None, jump = None,
     miniJump = None, rotGround = None, rotAir = None, thrustHold = None,
     thrustNoHold = None, tiltMult = None, rotSpeed = None, vyClamp = None,
     ampHold = None, ampNoHold = None, trailLen = None, jumpBase = None,
     jumpMax = None, holdScale = None, decay = None \<rparr>"

definition cube_entry :: ModeEntry where
  "cube_entry = noFields \<lparr> m_vx := Some 14.0, gravity := Some 0.50,
     miniGravity := Some 0.413, jump := Some 12.0, miniJump := Some 9.58,
     rotGround := Some 4.5, rotAir := Some 3.0 \<rparr>"

definition ship_entry :: ModeEntry where
  "ship_entry = noFields \<lparr> m_vx := Some (14.0 * (12.5 / 10.376)), gravity := Some 0.25,
     thrustHold := Some 1.15, thrustNoHold := Some 0.20, tiltMult := Some 0.12 \<rparr>"

definition ball_entry :: ModeEntry where
  "ball_entry = noFields \<lparr> m_vx := Some 14.0, gravity := Some 0.55, rotSpeed := Some 8.0 \<rparr>"

definition ufo_entry :: ModeEntry where
  "ufo_entry = noFields \<lparr> m_vx := Some 14.0, gravity := Some 0.40,
     miniGravity := Some 0.33, jump := Some 6.60, miniJump := Some 5.28,
     vyClamp := Some 8.0 \<rparr>"

definition wave_entry :: ModeEntry where
  "wave_entry = noFields \<lparr> m_vx := Some 16.0, ampHold := Some (- 1.35 * 60 * FIXED_DT),
     ampNoHold := Some 1.35, trailLen := Some 5 \<rparr>"

definition robot_entry :: ModeEntry where
  "robot_entry = noFields \<lparr> m_vx := Some 14.0, gravity := Some 0.84,
     miniGravity := Some 0.69, jumpBase := Some 10.34, jumpMax := Some 16.0,
     holdScale := Some 1.55 \<rparr>"

definition spider_entry :: ModeEntry where
  "spider_entry = noFields \<lparr> m_vx := Some 14.0, gravity := Some 0.0, jump := Some 11.5,
     decay := Some 0.92 \<rparr>"

definition swing_entry :: ModeEntry where
  "swing_entry = noFields \<lparr> m_vx := Some (14.0 * 1.15), gravity := Some 0.40,
     thrustHold := Some 1.00, thrustNoHold := Some 0.40, tiltMult := Some 0.15 \<rparr>"

definition MODES :: "(string \<times> ModeEntry) list" where
  "MODES = [(''cube'', cube_entry), (''ship'', ship_entry), (''ball'', ball_entry),
     (''ufo'', ufo_entry), (''wave'', wave_entry), (''robot'', robot_entry),
     (''spider'', spider_entry), (''swing'', swing_entry)]"

text \<open>
  \<open>MODES\<close> is an object literal, so \<open>MODES[k]\<close> also finds the members that every object
  inherits from \<open>Object.prototype\<close>. Such a member is a function (or the prototype
  itself): it is not \<open>undefined\<close>, and none of the fields of a mode entry is defined on it.
\<close>

definition objectPrototypeKeys :: "string list" where
  "objectPrototypeKeys = [''constructor'', ''hasOwnProperty'', ''isPrototypeOf'',
     ''propertyIsEnumerable'', ''toLocaleString'', ''toString'', ''valueOf'',
     ''__proto__'', ''__defineGetter__'', ''__defineSetter__'', ''__lookupGetter__'',
     ''__lookupSetter__'']"

text \<open>\<open>MODES[k]\<close>; \<open>None\<close> is \<open>undefined\<close>.\<close>

definition MODES_get :: "string \<Rightarrow> ModeEntry option" where
  "MODES_get k =
     (case map_of MODES k of
        Some e \<Rightarrow> Some e
      | None \<Rightarrow> if k \<in> set objectPrototypeKeys then Some noFields else None)"

section \<open>The player and its surroundings\<close>

text \<open>
  A candidate returned by the spatial index (\<open>type\<close>, \<open>x\<close>, \<open>y\<close>, \<open>w\<close>, \<open>h\<close> in the source),
  a box \<open>{x, y, w, h}\<close> and a trail sample \<open>{x, y, rot}\<close>.
\<close>

record obj =
  otype :: string
  ox :: jsnum
  oy :: jsnum
  ow :: jsnum
  oh :: jsnum

record hitbox =
  hx :: jsnum
  hy :: jsnum
  hw :: jsnum
  hh :: jsnum

record sample =
  sx :: jsnum
  sy :: jsnum
  rot :: jsnum

type_synonym particle = "jsnum \<times> jsnum \<times> string \<times> nat"

text \<open>
  The state that \<open>fixedPhysics\<close> reads and writes: the fields of the player (\<open>this.x\<close> and
  \<open>this.y\<close> are \<open>px\<close> and \<open>py\<close>) and, of the ambient \<open>game\<close> object, the pressed keys, the
  speed multiplier, the query of the quadtree and the particles added so far.
\<close>

record world =
  px :: jsnum
  py :: jsnum
  vx :: jsnum
  vy :: jsnum
  rotation :: jsnum
  flipY :: jsnum
  mode :: string
  mini :: bool
  mirror :: bool
  isOnGround :: bool
  lastInput :: bool
  holdTime :: jsnum
  time :: jsnum
  trail :: "sample list"
  keys :: "string set"
  speedMult :: jsnum
  quadTree_query :: "hitbox \<Rightarrow> obj list"
  particles :: "particle list"

datatype error = TypeError

text \<open>
  \<open>collides(a, b)\<close>: the body holds nothing but the comment \<open>AABB standard\<close>, so every
  call returns \<open>undefined\<close>, which the \<open>if\<close> that tests it reads as false.
\<close>

definition collides :: "hitbox \<Rightarrow> obj \<Rightarrow> bool" where
  "collides a b = False"

text \<open>
  The overlap test in the words of the spec (the exact overlap of two axis-aligned boxes,
  which the comment in \<open>collides\<close> names). The source does not compute it; it is here
  only to say which boxes the claims call overlapping, next to what \<open>collides\<close> returns.
\<close>

definition specOverlap :: "hitbox \<Rightarrow> obj \<Rightarrow> bool" where
  "specOverlap a b =
     (jlt (hx a) (jadd (ox b) (ow b)) \<and> jlt (ox b) (jadd (hx a) (hw a)) \<and>
      jlt (hy a) (jadd (oy b) (oh b)) \<and> jlt (oy b) (jadd (hy a) (hh a)))"

definition getHitbox :: "world \<Rightarrow> hitbox" where
  "getHitbox w =
     (let size = (if mini w then Fin 7.5 else Fin 15.0) in
      \<lparr> hx = jsub (px w) (jdiv size (Fin 2)),
        hy = jadd (jsub (py w) (jdiv size (Fin 2))) (if mode w = ''cube'' then Fin 2 else Fin 0),
        hw = size, hh = size \<rparr>)"

section \<open>Collision resolution\<close>

text \<open>
  The X loop: every candidate is visited, and each block for which \<open>collides\<close> holds
  moves \<open>x\<close>.
\<close>

fun xPass :: "hitbox \<Rightarrow> obj list \<Rightarrow> world \<Rightarrow> world" where
  "xPass hb [] w = w"
| "xPass hb (ob # rest) w =
     (if otype ob \<noteq> ''block'' then xPass hb rest w
      else if collides \<lparr> hx = px w, hy = hy hb, hw = hw hb, hh = hh hb \<rparr> ob
      then xPass hb rest
             (w \<lparr> px := (if jgt (vx w) (Fin 0) then jsub (ox ob) (hw hb)
                          else jadd (ox ob) (ow ob)) \<rparr>)
      else xPass hb rest w)"

text \<open>The Y loop: it ends at the first block for which \<open>collides\<close> holds (\<open>break\<close>).\<close>

fun yPass :: "hitbox \<Rightarrow> obj list \<Rightarrow> world \<Rightarrow> world" where
  "yPass hb [] w = w"
| "yPass hb (ob # rest) w =
     (if otype ob \<noteq> ''block'' then yPass hb rest w
      else if collides \<lparr> hx = px w, hy = py w, hw = hw hb, hh = hh hb \<rparr> ob
      then (if jgt (vy w) (Fin 0)
            then w \<lparr> py := jsub (oy ob) (hh hb), vy := Fin 0, isOnGround := True \<rparr>
            else w \<lparr> py := jadd (oy ob) (oh ob), vy := Fin 0 \<rparr>)
      else yPass hb rest w)"

text \<open>
  The interaction loop. The body of \<open>interact\<close> is not in the source (its comments say
  that portals set mode, flip, mini and speed, that orbs set \<open>vy\<close> and that spikes kill),
  so it is a parameter: any function on the state.
\<close>

fun interactPass :: "(obj \<Rightarrow> world \<Rightarrow> world) \<Rightarrow> hitbox \<Rightarrow> obj list \<Rightarrow> world \<Rightarrow> world" where
  "interactPass interact hb [] w = w"
| "interactPass interact hb (ob # rest) w =
     interactPass interact hb rest (if collides hb ob then interact ob w else w)"

definition updateCollisions :: "(obj \<Rightarrow> world \<Rightarrow> world) \<Rightarrow> jsnum \<Rightarrow> world \<Rightarrow> world" where
  "updateCollisions interact dt w =
     (let hb = getHitbox w; candidates = quadTree_query w hb in
      interactPass interact hb candidates (yPass hb candidates (xPass hb candidates w)))"

section \<open>The tick\<close>

definition frameDt :: "jsnum \<Rightarrow> jsnum" where
  "frameDt dt = jmul (Fin 60) dt"

definition miniFactorG :: "ModeEntry \<Rightarrow> world \<Rightarrow> jsnum" where
  "miniFactorG m w = (if mini w then jdiv (num (miniGravity m)) (num (gravity m)) else Fin 1.0)"

definition miniFactorJ :: "ModeEntry \<Rightarrow> world \<Rightarrow> jsnum" where
  "miniFactorJ m w = (if mini w then jdiv (num (miniJump m)) (num (jump m)) else Fin 1.0)"

definition g :: "ModeEntry \<Rightarrow> world \<Rightarrow> jsnum" where
  "g m w = jmul (num (gravity m)) (miniFactorG m w)"

definition inputNow :: "world \<Rightarrow> bool" where
  "inputNow w = (''Space'' \<in> keys w \<or> ''ArrowUp'' \<in> keys w)"

definition justPressed :: "world \<Rightarrow> bool" where
  "justPressed w = (inputNow w \<and> \<not> lastInput w)"

text \<open>Input edge and hold.\<close>

definition inputStep :: "jsnum \<Rightarrow> world \<Rightarrow> world" where
  "inputStep dt w =
     w \<lparr> lastInput := inputNow w,
         holdTime := (if inputNow w then jadd (holdTime w) (frameDt dt) else Fin 0) \<rparr>"

text \<open>X movement.\<close>

definition xMove :: "ModeEntry \<Rightarrow> jsnum \<Rightarrow> world \<Rightarrow> world" where
  "xMove m dt w =
     (let v = jmul (jmul (num (m_vx m)) (speedMult w)) (if mirror w then Fin (- 1) else Fin 1)
      in w \<lparr> vx := v, px := jadd (px w) (jmul v dt) \<rparr>)"

text \<open>Y gravity.\<close>

definition gravityStep :: "jsnum \<Rightarrow> jsnum \<Rightarrow> world \<Rightarrow> world" where
  "gravityStep gr dt w = w \<lparr> vy := jadd (vy w) (jmul (jmul gr (flipY w)) dt) \<rparr>"

text \<open>
  The \<open>switch\<close> on the mode. \<open>mfJ\<close>, \<open>jp\<close> and \<open>holding\<close> are the constants \<open>miniFactorJ\<close>,
  \<open>justPressed\<close> and \<open>holding\<close> that the source computes before it changes the state.
  A mode that no \<open>case\<close> names leaves the state as it is.
\<close>

definition modeSwitch :: "ModeEntry \<Rightarrow> jsnum \<Rightarrow> bool \<Rightarrow> bool \<Rightarrow> jsnum \<Rightarrow> world \<Rightarrow> world" where
  "modeSwitch m mfJ jp holding dt w =
     (if mode w = ''cube'' then
        (let w1 = (if jp \<and> isOnGround w
                   then w \<lparr> vy := jmul (jmul (jneg (num (jump m))) mfJ) (flipY w),
                            particles := particles w @ [(px w, jadd (py w) (Fin 15), ''dust'', 8)] \<rparr>
                   else w);
             rotBase = jmul (if isOnGround w1 then num (rotGround m) else num (rotAir m))
                            (jdiv (vx w1) (Fin 14))
         in w1 \<lparr> rotation := jadd (rotation w1) (jmul (jmul rotBase dt) (Fin 60)) \<rparr>)
      else if mode w = ''ship'' \<or> mode w = ''swing'' then
        (let thrust = (if holding then jneg (num (thrustHold m)) else num (thrustNoHold m));
             w1 = w \<lparr> vy := jadd (vy w) (jmul (jmul thrust (speedMult w)) dt) \<rparr>
         in w1 \<lparr> rotation :=
                   jmul (jmul (jdiv (Math_atan2 (jneg (vy w1)) (Math_abs (vx w1))) Math_PI) (Fin 180))
                        (if mode w1 = ''ship'' then Fin 0.12 else Fin 0.15) \<rparr>)
      else if mode w = ''ball'' then
        (let w1 = (if jp then w \<lparr> flipY := jmul (flipY w) (Fin (- 1)) \<rparr> else w)
         in w1 \<lparr> rotation := jadd (rotation w1) (jmul (jmul (num (rotSpeed m)) dt) (Fin 60)) \<rparr>)
      else if mode w = ''ufo'' then
        (let w1 = (if jp then w \<lparr> vy := jmul (jmul (jneg (num (jump m))) mfJ) (flipY w) \<rparr> else w);
             w2 = w1 \<lparr> vy := Math_max (jmul (jneg (num (vyClamp m))) (speedMult w1))
                                (Math_min (jmul (num (vyClamp m)) (speedMult w1)) (vy w1)) \<rparr>
         in w2 \<lparr> rotation :=
                   jadd (rotation w2) (jmul (jmul (Math_sin (jmul (time w2) (Fin 10))) (Fin 30)) dt) \<rparr>)
      else if mode w = ''wave'' then
        (let w1 = w \<lparr> vy := jmul (jmul (flipY w)
                                (if holding then jneg (num (ampHold m)) else num (ampNoHold m)))
                              (speedMult w) \<rparr>
         in w1 \<lparr> rotation :=
                   jadd (jdiv (jmul (Math_atan2 (vy w1) (vx w1)) (Fin 180)) Math_PI) (Fin 90) \<rparr>)
      else if mode w = ''robot'' then
        (if jp \<and> isOnGround w
         then (let holdJump =
                     jadd (jmul (jdiv (Math_min (holdTime w) (Fin 20)) (Fin 20))
                                (jsub (num (jumpMax m)) (num (jumpBase m))))
                          (num (jumpBase m))
               in w \<lparr> vy := jmul (jmul (jneg holdJump) mfJ) (flipY w) \<rparr>)
         else w)
      else if mode w = ''spider'' then
        (if jp
         then (let w1 = w \<lparr> flipY := jmul (flipY w) (Fin (- 1)) \<rparr>
               in w1 \<lparr> vy := jmul (jneg (num (jump m))) (flipY w1) \<rparr>)
         else w \<lparr> vy := jmul (vy w) (num (decay m)) \<rparr>)
      else w)"

text \<open>Integrate Y.\<close>

definition integrateY :: "jsnum \<Rightarrow> world \<Rightarrow> world" where
  "integrateY dt w = w \<lparr> py := jadd (py w) (jmul (vy w) dt) \<rparr>"

text \<open>Post-collision.\<close>

definition postCollision :: "world \<Rightarrow> world" where
  "postCollision w =
     (if mode w = ''cube'' then w \<lparr> rotation := jrem (rotation w) (Fin 360) \<rparr> else w)"

text \<open>Trail update: \<open>shift\<close> drops the first sample, if there is one; \<open>push\<close> appends.\<close>

definition trailUpdate :: "world \<Rightarrow> world" where
  "trailUpdate w =
     w \<lparr> trail := tl (trail w) @ [\<lparr> sx = px w, sy = py w, rot = rotation w \<rparr>] \<rparr>"

text \<open>The state after the gravity step, and after the \<open>switch\<close>.\<close>

definition afterGravity :: "ModeEntry \<Rightarrow> jsnum \<Rightarrow> world \<Rightarrow> world" where
  "afterGravity m dt w = gravityStep (g m w) dt (xMove m dt (inputStep dt w))"

definition afterMode :: "ModeEntry \<Rightarrow> jsnum \<Rightarrow> world \<Rightarrow> world" where
  "afterMode m dt w =
     modeSwitch m (miniFactorJ m w) (justPressed w) (inputNow w) dt (afterGravity m dt w)"

text \<open>
  \<open>fixedPhysics(dt)\<close>. When \<open>MODES[this.mode]\<close> is \<open>undefined\<close>, the first read of a field
  of it throws a \<open>TypeError\<close>, before anything is written.
\<close>

definition fixedPhysics :: "(obj \<Rightarrow> world \<Rightarrow> world) \<Rightarrow> jsnum \<Rightarrow> world \<Rightarrow> error + world" where
  "fixedPhysics interact dt w =
     (case MODES_get (mode w) of
        None \<Rightarrow> Inl TypeError
      | Some m \<Rightarrow>
          Inr (trailUpdate (postCollision (updateCollisions interact dt
                 (integrateY dt (afterMode m dt w))))))"

section \<open>The game loop and concrete states\<close>

text \<open>
  The loop of the game calls \<open>fixedPhysics\<close> once per frame; \<open>run\<close> does so for a list of
  frames, each given by the set of keys that are down in it, and stops at an error.
\<close>

fun run :: "(obj \<Rightarrow> world \<Rightarrow> world) \<Rightarrow> jsnum \<Rightarrow> string set list \<Rightarrow> world \<Rightarrow> error + world" where
  "run interact dt [] w = Inr w"
| "run interact dt (ks # rest) w =
     (case fixedPhysics interact dt (w \<lparr> keys := ks \<rparr>) of
        Inl e \<Rightarrow> Inl e
      | Inr w' \<Rightarrow> run interact dt rest w')"

text \<open>A field of the state that a tick returns; \<open>None\<close> when the tick threw.\<close>

definition resultOf :: "(world \<Rightarrow> 'a) \<Rightarrow> error + world \<Rightarrow> 'a option" where
  "resultOf f r = (case r of Inl e \<Rightarrow> None | Inr w \<Rightarrow> Some (f w))"

text \<open>The \<open>interact\<close> of the source as it stands: a body without statements.\<close>

definition noInteract :: "obj \<Rightarrow> world \<Rightarrow> world" where
  "noInteract ob w = w"

text \<open>A cube at the origin, in the air, no key down, no collider near it.\<close>

definition atRest :: world where
  "atRest = \<lparr> px = Fin 0, py = Fin 0, vx = Fin 0, vy = Fin 0, rotation = Fin 0,
     flipY = Fin 1, mode = ''cube'', mini = False, mirror = False, isOnGround = False,
     lastInput = False, holdTime = Fin 0, time = Fin 0, trail = [], keys = {},
     speedMult = Fin 1, quadTree_query = (\<lambda>hb. []), particles = [] \<rparr>"

text \<open>A cube in the air whose ground flag is set, as an earlier state left it.\<close>

definition flaggedCube :: world where
  "flaggedCube = atRest \<lparr> isOnGround := True \<rparr>"

definition unknownMode :: world where
  "unknownMode = atRest \<lparr> mode := ''constructor'' \<rparr>"

definition miniSpiderPress :: world where
  "miniSpiderPress = atRest \<lparr> mode := ''spider'', mini := True, keys := {''Space''} \<rparr>"

definition miniSpider :: world where
  "miniSpider = atRest \<lparr> mode := ''spider'', mini := True \<rparr>"

definition mirroredCube :: world where
  "mirroredCube = atRest \<lparr> mirror := True \<rparr>"

definition wall :: obj where
  "wall = \<lparr> otype = ''block'', ox = Fin 10, oy = Fin (- 20), ow = Fin 30, oh = Fin 40 \<rparr>"

definition cubeAtWall :: world where
  "cubeAtWall = atRest \<lparr> vx := Fin 14, quadTree_query := (\<lambda>hb. [wall]) \<rparr>"

definition waveHolding :: world where
  "waveHolding = atRest \<lparr> mode := ''wave'', keys := {''Space''}, lastInput := True \<rparr>"

definition waveReleased :: world where
  "waveReleased = atRest \<lparr> mode := ''wave'' \<rparr>"

text \<open>
  A robot with the ground flag set and the key already down; a long floor block is among
  the candidates.
\<close>

definition floorBlock :: obj where
  "floorBlock = \<lparr> otype = ''block'', ox = Fin (- 100), oy = Fin 15, ow = Fin 1000, oh = Fin 30 \<rparr>"

definition robotOnFloor :: world where
  "robotOnFloor = atRest \<lparr> mode := ''robot'', isOnGround := True, lastInput := True,
     holdTime := Fin 1, quadTree_query := (\<lambda>hb. [floorBlock]) \<rparr>"

text \<open>A cube whose trail holds two samples.\<close>

definition firstSample :: sample where
  "firstSample = \<lparr> sx = Fin (- 1), sy = Fin 0, rot = Fin 0 \<rparr>"

definition secondSample :: sample where
  "secondSample = \<lparr> sx = Fin (- 2), sy = Fin 0, rot = Fin 0 \<rparr>"

definition cubeWithTrail :: world where
  "cubeWithTrail = atRest \<lparr> trail := [firstSample, secondSample] \<rparr>"

definition ufoFalling :: world where
  "ufoFalling = atRest \<lparr> mode := ''ufo'', vy := Fin 100 \<rparr>"

definition spiderSettling :: world where
  "spiderSettling = atRest \<lparr> mode := ''spider'', vy := Fin 10 \<rparr>"

section \<open>Facts about numbers\<close>

lemmas entry_defs = cube_entry_def ship_entry_def ball_entry_def ufo_entry_def wave_entry_def
  robot_entry_def spider_entry_def swing_entry_def noFields_def FIXED_DT_def PHYSICS_FPS_def

lemmas tick_defs = fixedPhysics_def MODES_get_def MODES_def objectPrototypeKeys_def entry_defs
  afterMode_def afterGravity_def modeSwitch_def gravityStep_def xMove_def inputStep_def
  integrateY_def updateCollisions_def postCollision_def trailUpdate_def getHitbox_def
  miniFactorG_def miniFactorJ_def g_def inputNow_def justPressed_def frameDt_def
  resultOf_def noInteract_def atRest_def jsub_def jgt_def Math_min_def Math_max_def
  collides_def Let_def

lemmas world_defs = flaggedCube_def unknownMode_def miniSpiderPress_def miniSpider_def
  mirroredCube_def wall_def cubeAtWall_def waveHolding_def
  waveReleased_def floorBlock_def robotOnFloor_def firstSample_def secondSample_def cubeWithTrail_def
  ufoFalling_def
  spiderSettling_def

lemma jadd_NaN [simp]: "jadd a NaN = NaN"
  by (cases a) simp_all

lemma jmul_NaN [simp]: "jmul a NaN = NaN"
  by (cases a) simp_all

lemma jdiv_NaN [simp]: "jdiv a NaN = NaN"
  by (cases a) simp_all

lemma jlt_NaN [simp]: "jlt a NaN = False"
  by (cases a) simp_all

lemma trunc_frac_nonneg:
  "0 \<le> x \<Longrightarrow> 0 \<le> x - of_int (trunc x) \<and> x - of_int (trunc x) < 1"
  unfolding trunc_def by simp linarith

lemma trunc_frac_nonpos:
  "x \<le> 0 \<Longrightarrow> - 1 < x - of_int (trunc x) \<and> x - of_int (trunc x) \<le> 0"
proof (cases "x = 0")
  case True
  then show ?thesis by (simp add: trunc_def)
next
  case False
  assume "x \<le> 0"
  with False have "trunc x = \<lceil>x\<rceil>" by (simp add: trunc_def)
  then show ?thesis by simp linarith
qed

lemma trunc_sign: "0 \<le> x \<Longrightarrow> 0 \<le> trunc x" "x \<le> 0 \<Longrightarrow> trunc x \<le> 0"
  by (auto simp: trunc_def)

lemma rem_as_frac:
  "b \<noteq> 0 \<Longrightarrow> a - b * of_int (trunc (a / b)) = b * (a / b - of_int (trunc (a / b)))"
  by (simp add: algebra_simps)

lemma rem_nonneg:
  assumes "0 < b" "0 \<le> a"
  shows "0 \<le> a - b * of_int (trunc (a / b)) \<and> a - b * of_int (trunc (a / b)) < b"
proof -
  have x: "0 \<le> a / b" using assms by simp
  let ?d = "a / b - of_int (trunc (a / b))"
  have d: "0 \<le> ?d" "?d < 1" using trunc_frac_nonneg [OF x] by simp_all
  have "0 \<le> b * ?d" using assms(1) d(1) by simp
  moreover have "b * ?d < b * 1" using assms(1) d(2) by (simp only: mult_less_cancel_left_pos)
  ultimately show ?thesis using assms(1) by (simp add: rem_as_frac)
qed

lemma rem_nonpos:
  assumes "0 < b" "a \<le> 0"
  shows "- b < a - b * of_int (trunc (a / b)) \<and> a - b * of_int (trunc (a / b)) \<le> 0"
proof -
  have x: "a / b \<le> 0" using assms by (simp add: divide_le_0_iff)
  let ?d = "a / b - of_int (trunc (a / b))"
  have d: "- 1 < ?d" "?d \<le> 0" using trunc_frac_nonpos [OF x] by simp_all
  have "b * ?d \<le> 0" using assms(1) d(2) by (simp add: mult_le_0_iff)
  moreover have "b * (- 1) < b * ?d" using assms(1) d(1) by (simp only: mult_less_cancel_left_pos)
  ultimately show ?thesis using assms(1) by (simp add: rem_as_frac)
qed

lemma jrem_small: "\<bar>a\<bar> < b \<Longrightarrow> jrem (Fin a) (Fin b) = Fin a"
proof -
  assume h: "\<bar>a\<bar> < b"
  then have b: "0 < b" by linarith
  have "- 1 < a / b" "a / b < 1" using h b by (simp_all add: pos_less_divide_eq pos_divide_less_eq)
  then have "trunc (a / b) = 0"
    unfolding trunc_def by (simp add: floor_eq_iff ceiling_eq_iff)
  then show ?thesis using b by simp
qed

lemma jrem_360:
  "\<exists>r. jrem (Fin a) (Fin 360) = Fin r \<and> r = a - 360 * of_int (trunc (a / 360)) \<and>
       - 360 < r \<and> r < 360 \<and> 0 \<le> a * r \<and> \<bar>r\<bar> \<le> \<bar>a\<bar>"
proof (cases "0 \<le> a")
  case True
  let ?r = "a - 360 * of_int (trunc (a / 360))"
  have b: "0 \<le> ?r" "?r < 360" using rem_nonneg [of 360 a] True by simp_all
  have "0 \<le> trunc (a / 360)" using True by (intro trunc_sign) simp
  then have "(0::real) \<le> 360 * of_int (trunc (a / 360))" by simp
  then have le: "?r \<le> a" by linarith
  have "0 \<le> a * ?r" using True b(1) by (rule mult_nonneg_nonneg)
  moreover have "\<bar>?r\<bar> \<le> \<bar>a\<bar>" using b(1) le True by linarith
  ultimately show ?thesis using b by simp
next
  case False
  then have neg: "a \<le> 0" by simp
  let ?r = "a - 360 * of_int (trunc (a / 360))"
  have b: "- 360 < ?r" "?r \<le> 0" using rem_nonpos [of 360 a] neg by simp_all
  have "trunc (a / 360) \<le> 0" using neg by (intro trunc_sign) (simp add: divide_le_0_iff)
  then have "360 * real_of_int (trunc (a / 360)) \<le> 0" by (simp add: mult_le_0_iff)
  then have ge: "a \<le> ?r" by linarith
  have "0 \<le> a * ?r" using neg b(2) by (rule mult_nonpos_nonpos)
  moreover have "\<bar>?r\<bar> \<le> \<bar>a\<bar>" using b(2) ge neg by linarith
  ultimately show ?thesis using b by simp
qed

lemma clamp_Fin:
  "0 \<le> b \<Longrightarrow> \<exists>r. Math_max (Fin (- b)) (Math_min (Fin b) (Fin x)) = Fin r \<and> \<bar>r\<bar> \<le> b"
  by (auto simp: Math_max_def Math_min_def)

section \<open>Facts about the phases of a tick\<close>

lemma MODES_get_simps:
  "MODES_get ''cube'' = Some cube_entry" "MODES_get ''ship'' = Some ship_entry"
  "MODES_get ''ball'' = Some ball_entry" "MODES_get ''ufo'' = Some ufo_entry"
  "MODES_get ''wave'' = Some wave_entry" "MODES_get ''robot'' = Some robot_entry"
  "MODES_get ''spider'' = Some spider_entry" "MODES_get ''swing'' = Some swing_entry"
  by (simp_all add: MODES_get_def MODES_def)

lemma no_miniGravity:
  "miniGravity ship_entry = None" "miniGravity ball_entry = None" "miniGravity wave_entry = None"
  "miniGravity spider_entry = None" "miniGravity swing_entry = None"
  by (simp_all add: entry_defs)

lemma collides_NaN: "hy a = NaN \<Longrightarrow> \<not> collides a b"
  by (simp add: collides_def)

lemma xPass_NaN: "hy hb = NaN \<Longrightarrow> xPass hb cs w = w"
  by (induction cs arbitrary: w) (simp_all add: collides_def)

lemma yPass_NaN: "py w = NaN \<Longrightarrow> yPass hb cs w = w"
  by (induction cs arbitrary: w) (simp_all add: collides_def)

lemma interactPass_NaN: "hy hb = NaN \<Longrightarrow> interactPass interact hb cs w = w"
  by (induction cs arbitrary: w) (simp_all add: collides_def)

lemma xPass_fields [simp]:
  "py (xPass hb cs w) = py w" "vx (xPass hb cs w) = vx w" "vy (xPass hb cs w) = vy w"
  "rotation (xPass hb cs w) = rotation w" "mode (xPass hb cs w) = mode w"
  "trail (xPass hb cs w) = trail w" "isOnGround (xPass hb cs w) = isOnGround w"
  by (induction cs arbitrary: w) simp_all

lemma yPass_fields [simp]:
  "px (yPass hb cs w) = px w" "vx (yPass hb cs w) = vx w"
  "rotation (yPass hb cs w) = rotation w" "mode (yPass hb cs w) = mode w"
  "trail (yPass hb cs w) = trail w"
  by (induction cs arbitrary: w) simp_all

lemma yPass_vy: "vy (yPass hb cs w) = vy w \<or> vy (yPass hb cs w) = Fin 0"
  by (induction cs arbitrary: w) simp_all

lemma interactPass_keeps:
  assumes "\<And>ob u. f (interact ob u) = f u"
  shows "f (interactPass interact hb cs w) = f w"
  by (induction cs arbitrary: w) (simp_all add: assms)

lemma xPass_never_moves: "xPass hb cs w = w"
  by (induction cs arbitrary: w) (simp_all add: collides_def)

lemma yPass_keeps_flag: "isOnGround w \<Longrightarrow> isOnGround (yPass hb cs w)"
  by (induction cs arbitrary: w) simp_all

lemma getHitbox_hw: "hw (getHitbox w) = (if mini w then Fin 7.5 else Fin 15)"
  by (simp add: getHitbox_def Let_def)

lemma getHitbox_NaN: "py w = NaN \<Longrightarrow> hy (getHitbox w) = NaN"
  by (simp add: getHitbox_def jsub_def Let_def)

lemma updateCollisions_NaN: "py w = NaN \<Longrightarrow> updateCollisions interact dt w = w"
  by (simp add: updateCollisions_def Let_def getHitbox_NaN xPass_NaN yPass_NaN interactPass_NaN)

lemma updateCollisions_empty:
  "quadTree_query w (getHitbox w) = [] \<Longrightarrow> updateCollisions interact dt w = w"
  by (simp add: updateCollisions_def Let_def)

lemma afterGravity_fields:
  "mode (afterGravity m dt w) = mode w" "trail (afterGravity m dt w) = trail w"
  "mini (afterGravity m dt w) = mini w" "flipY (afterGravity m dt w) = flipY w"
  "speedMult (afterGravity m dt w) = speedMult w"
  "isOnGround (afterGravity m dt w) = isOnGround w"
  "quadTree_query (afterGravity m dt w) = quadTree_query w"
  "keys (afterGravity m dt w) = keys w"
  "lastInput (afterGravity m dt w) = inputNow w"
  "vy (afterGravity m dt w) = jadd (vy w) (jmul (jmul (g m w) (flipY w)) dt)"
  by (simp_all add: afterGravity_def gravityStep_def xMove_def inputStep_def Let_def)

lemma modeSwitch_fields:
  "mode (modeSwitch m mfJ jp holding dt u) = mode u"
  "trail (modeSwitch m mfJ jp holding dt u) = trail u"
  "mini (modeSwitch m mfJ jp holding dt u) = mini u"
  "speedMult (modeSwitch m mfJ jp holding dt u) = speedMult u"
  "isOnGround (modeSwitch m mfJ jp holding dt u) = isOnGround u"
  "quadTree_query (modeSwitch m mfJ jp holding dt u) = quadTree_query u"
  "keys (modeSwitch m mfJ jp holding dt u) = keys u"
  "lastInput (modeSwitch m mfJ jp holding dt u) = lastInput u"
  by (simp_all add: modeSwitch_def Let_def)

lemma afterMode_fields:
  "mode (afterMode m dt w) = mode w" "trail (afterMode m dt w) = trail w"
  "mini (afterMode m dt w) = mini w" "speedMult (afterMode m dt w) = speedMult w"
  "isOnGround (afterMode m dt w) = isOnGround w"
  "quadTree_query (afterMode m dt w) = quadTree_query w"
  "keys (afterMode m dt w) = keys w"
  "lastInput (afterMode m dt w) = inputNow w"
  by (simp_all add: afterMode_def modeSwitch_fields afterGravity_fields)

lemma integrateY_trail [simp]: "trail (integrateY dt u) = trail u"
  by (simp add: integrateY_def)

lemma postCollision_fields [simp]:
  "px (postCollision u) = px u" "py (postCollision u) = py u" "vy (postCollision u) = vy u"
  "trail (postCollision u) = trail u" "mode (postCollision u) = mode u"
  by (simp_all add: postCollision_def)

lemma trailUpdate_fields [simp]:
  "px (trailUpdate u) = px u" "py (trailUpdate u) = py u" "vy (trailUpdate u) = vy u"
  "rotation (trailUpdate u) = rotation u" "mode (trailUpdate u) = mode u"
  by (simp_all add: trailUpdate_def)

lemma tick_of_NaN:
  assumes "MODES_get (mode w) = Some m" and "vy (afterMode m dt w) = NaN"
    and "mode w \<noteq> ''cube''"
  shows "resultOf vy (fixedPhysics interact dt w) = Some NaN"
    and "resultOf py (fixedPhysics interact dt w) = Some NaN"
proof -
  let ?u = "integrateY dt (afterMode m dt w)"
  have py: "py ?u = NaN" using assms(2) by (simp add: integrateY_def)
  have vy: "vy ?u = NaN" using assms(2) by (simp add: integrateY_def)
  have md: "mode ?u \<noteq> ''cube''" using assms(3) by (simp add: integrateY_def afterMode_fields)
  have "fixedPhysics interact dt w = Inr (trailUpdate ?u)"
    using assms(1) md by (simp add: fixedPhysics_def updateCollisions_NaN [OF py] postCollision_def)
  then show "resultOf vy (fixedPhysics interact dt w) = Some NaN"
    and "resultOf py (fixedPhysics interact dt w) = Some NaN"
    using py vy by (simp_all add: resultOf_def trailUpdate_def)
qed

lemma mini_g_NaN: "mini w \<Longrightarrow> miniGravity m = None \<Longrightarrow> miniFactorG m w = NaN \<and> g m w = NaN"
  by (simp add: miniFactorG_def g_def)

lemma afterGravity_NaN: "g m w = NaN \<Longrightarrow> vy (afterGravity m dt w) = NaN"
  by (simp add: afterGravity_fields)

lemma afterMode_NaN:
  assumes "vy (afterGravity m dt w) = NaN" and "mode w \<noteq> ''wave''" and "mode w \<noteq> ''cube''"
    and "mode w \<noteq> ''ufo''" and "mode w \<noteq> ''robot''"
    and "mode w = ''spider'' \<longrightarrow> \<not> justPressed w"
  shows "vy (afterMode m dt w) = NaN"
  using assms by (simp add: afterMode_def modeSwitch_def afterGravity_fields Let_def)

lemma ufo_afterMode:
  assumes "mode w = ''ufo''" "vy w = Fin v" "flipY w = Fin f" "dt = Fin d"
    "speedMult w = Fin s" "0 \<le> s"
  shows "\<exists>r. vy (afterMode ufo_entry dt w) = Fin r \<and> \<bar>r\<bar> \<le> 8 * s"
proof -
  have b: "0 \<le> 8 * s" using assms(6) by simp
  obtain x where x: "vy (afterGravity ufo_entry dt w) = Fin x"
    using assms
    by (cases "mini w") (simp_all add: afterGravity_fields g_def miniFactorG_def entry_defs)
  obtain j where
    j: "jmul (jmul (jneg (num (jump ufo_entry))) (miniFactorJ ufo_entry w)) (flipY w) = Fin j"
    using assms by (cases "mini w") (simp_all add: miniFactorJ_def entry_defs)
  have "vy (afterMode ufo_entry dt w) =
      Math_max (Fin (- (8 * s))) (Math_min (Fin (8 * s)) (Fin (if justPressed w then j else x)))"
    using assms x j
    by (simp add: afterMode_def modeSwitch_def afterGravity_fields Let_def)
       (simp add: entry_defs)
  then show ?thesis using clamp_Fin [OF b] by simp
qed

lemma spider_mode_step:
  assumes "mode w = ''spider''" and "\<not> mini w" and "\<not> justPressed w"
    and "vy w = Fin v" and "flipY w = Fin f" and "dt = Fin d"
  shows "g spider_entry w = Fin 0" and "vy (afterGravity spider_entry dt w) = Fin v"
    and "flipY (afterMode spider_entry dt w) = flipY w"
    and "vy (afterMode spider_entry dt w) = Fin (0.92 * v)"
proof -
  show g0: "g spider_entry w = Fin 0"
    using assms(2) by (simp add: g_def miniFactorG_def entry_defs)
  show ag: "vy (afterGravity spider_entry dt w) = Fin v"
    using assms g0 by (simp add: afterGravity_fields)
  show "flipY (afterMode spider_entry dt w) = flipY w"
    using assms(1,3) by (simp add: afterMode_def modeSwitch_def afterGravity_fields)
  show "vy (afterMode spider_entry dt w) = Fin (0.92 * v)"
    using assms(1,3) ag
    by (simp add: afterMode_def modeSwitch_def afterGravity_fields) (simp add: entry_defs)
qed

lemma spider_tick:
  assumes "mode w = ''spider''" and "\<not> mini w" and "\<not> justPressed w"
    and "vy w = Fin v" and "flipY w = Fin f" and "dt = Fin d"
    and "\<forall>hb. quadTree_query w hb = []"
  shows "\<exists>w'. fixedPhysics interact dt w = Inr w' \<and> mode w' = ''spider'' \<and> \<not> mini w' \<and>
           flipY w' = Fin f \<and> vy w' = Fin (0.92 * v) \<and>
           quadTree_query w' = quadTree_query w \<and> keys w' = keys w \<and>
           lastInput w' = inputNow w"
proof -
  let ?a = "afterMode spider_entry dt w"
  let ?u = "integrateY dt ?a"
  have q: "quadTree_query ?u (getHitbox ?u) = []"
    using assms(7) by (simp add: integrateY_def afterMode_fields)
  have md: "mode ?u = ''spider''" using assms(1) by (simp add: integrateY_def afterMode_fields)
  have fp: "fixedPhysics interact dt w = Inr (trailUpdate ?u)"
    using assms(1) md
    by (simp add: fixedPhysics_def MODES_get_simps updateCollisions_empty [OF q] postCollision_def)
  have "mode (trailUpdate ?u) = ''spider''" using md by simp
  moreover have "\<not> mini (trailUpdate ?u)"
    using assms(2) by (simp add: trailUpdate_def integrateY_def afterMode_fields)
  moreover have "flipY (trailUpdate ?u) = Fin f"
    using spider_mode_step(3) [OF assms(1-6)] assms(5) by (simp add: trailUpdate_def integrateY_def)
  moreover have "vy (trailUpdate ?u) = Fin (0.92 * v)"
    using spider_mode_step(4) [OF assms(1-6)] by (simp add: integrateY_def)
  moreover have "quadTree_query (trailUpdate ?u) = quadTree_query w"
    "keys (trailUpdate ?u) = keys w" "lastInput (trailUpdate ?u) = inputNow w"
    by (simp_all add: trailUpdate_def integrateY_def afterMode_fields)
  ultimately show ?thesis using fp by simp
qed

lemma spider_run:
  assumes "mode w = ''spider''" and "\<not> mini w" and "\<not> justPressed w"
    and "vy w = Fin v" and "flipY w = Fin f" and "dt = Fin d"
    and "\<forall>hb. quadTree_query w hb = []" and "keys w = ks"
  shows "resultOf vy (run interact dt (replicate n ks) w) = Some (Fin (0.92 ^ n * v))"
  using assms
proof (induction n arbitrary: w v)
  case 0
  then show ?case by (simp add: resultOf_def)
next
  case (Suc n)
  have same: "w \<lparr> keys := ks \<rparr> = w" using Suc.prems(8) by simp
  from spider_tick [OF Suc.prems(1-7), of interact]
  obtain w' where w': "fixedPhysics interact dt w = Inr w'" "mode w' = ''spider''" "\<not> mini w'"
    "flipY w' = Fin f" "vy w' = Fin (0.92 * v)" "quadTree_query w' = quadTree_query w"
    "keys w' = keys w" "lastInput w' = inputNow w"
    by blast
  have jp: "\<not> justPressed w'" using w'(7,8) by (auto simp: justPressed_def inputNow_def)
  have q: "\<forall>hb. quadTree_query w' hb = []" using Suc.prems(7) w'(6) by simp
  have k: "keys w' = ks" using w'(7) Suc.prems(8) by simp
  have "resultOf vy (run interact dt (replicate n ks) w') = Some (Fin (0.92 ^ n * (0.92 * v)))"
    using Suc.IH [OF w'(2) w'(3) jp w'(5) w'(4) Suc.prems(6) q k] .
  then show ?case using w'(1) same by simp
qed

lemma tick_keeps_flag:
  assumes "isOnGround w" and "fixedPhysics noInteract dt w = Inr w'"
  shows "isOnGround w'"
proof -
  from assms(2) obtain m where m: "MODES_get (mode w) = Some m"
    by (cases "MODES_get (mode w)") (simp_all add: fixedPhysics_def)
  let ?u = "integrateY dt (afterMode m dt w)"
  have u: "isOnGround ?u" using assms(1) by (simp add: integrateY_def afterMode_fields)
  have pass: "isOnGround (yPass hb cs (xPass hb cs ?u))" for hb cs
    using u by (intro yPass_keeps_flag) simp
  have "isOnGround (updateCollisions noInteract dt ?u) =
      isOnGround (yPass (getHitbox ?u) (quadTree_query ?u (getHitbox ?u))
        (xPass (getHitbox ?u) (quadTree_query ?u (getHitbox ?u)) ?u))"
    by (simp add: updateCollisions_def Let_def interactPass_keeps [of isOnGround] noInteract_def)
  then have "isOnGround (updateCollisions noInteract dt ?u)" using pass by simp
  moreover have "w' = trailUpdate (postCollision (updateCollisions noInteract dt ?u))"
    using assms(2) m by (simp add: fixedPhysics_def)
  ultimately show ?thesis by (simp add: trailUpdate_def postCollision_def)
qed

section \<open>The claims\<close>

subsection \<open>C1: the ground flag\<close>

text \<open>
  C1 says that \<open>onGround\<close> is reset to false at the start of the Y pass of every tick, and
  is true after the tick only when that tick snapped the player to a floor. The earlier
  \<open>update\<close> resets the flag before its collision passes; \<open>fixedPhysics\<close> and
  \<open>updateCollisions\<close> never write false to \<open>isOnGround\<close>. So no tick turns a set flag
  into false, whatever the state and the candidates. A cube in the air with the flag set
  and no candidate at all still has it set after one tick and after three, and a press
  in the third tick makes the cube jump (\<open>vy = -12\<close>) in mid-air.
\<close>

theorem onGround_survives_tick_without_contact:
  "resultOf isOnGround (fixedPhysics noInteract dt (w \<lparr> isOnGround := True \<rparr>)) \<noteq> Some False \<and>
   resultOf isOnGround (fixedPhysics noInteract (Fin FIXED_DT) flaggedCube) = Some True \<and>
   resultOf isOnGround (run noInteract (Fin FIXED_DT) [{}, {}, {}] flaggedCube) = Some True \<and>
   resultOf vy (run noInteract (Fin FIXED_DT) [{}, {}, {''Space''}] flaggedCube)
     = Some (Fin (- 12))"
proof -
  have "resultOf isOnGround (fixedPhysics noInteract dt (w \<lparr> isOnGround := True \<rparr>)) \<noteq> Some False"
  proof (cases "fixedPhysics noInteract dt (w \<lparr> isOnGround := True \<rparr>)")
    case (Inl e)
    then show ?thesis by (simp add: resultOf_def)
  next
    case (Inr w')
    have "isOnGround (w \<lparr> isOnGround := True \<rparr>)" by simp
    then have "isOnGround w'" using Inr by (rule tick_keeps_flag)
    then show ?thesis by (simp add: resultOf_def Inr)
  qed
  moreover have
    "resultOf isOnGround (fixedPhysics noInteract (Fin FIXED_DT) flaggedCube) = Some True"
    "resultOf isOnGround (run noInteract (Fin FIXED_DT) [{}, {}, {}] flaggedCube) = Some True"
    "resultOf vy (run noInteract (Fin FIXED_DT) [{}, {}, {''Space''}] flaggedCube)
       = Some (Fin (- 12))"
    by (simp_all add: tick_defs world_defs)
  ultimately show ?thesis by simp
qed

subsection \<open>C2: unknown modes\<close>

text \<open>
  C2, as the code has it: \<open>MODES\<close> defines exactly the eight modes, and for each of them
  the lookup gives its entry and the tick runs. For an identifier that is neither one
  of the eight nor a member inherited from \<open>Object.prototype\<close>, \<open>MODES[id]\<close> is \<open>undefined\<close>
  and \<open>fixedPhysics\<close> throws a \<open>TypeError\<close>, whatever the state: there is no
  \<open>UnknownModeError\<close>, and no default entry is used.
\<close>

theorem unknown_mode_throws_TypeError:
  assumes "k \<in> set (map fst MODES)"
    and "u \<notin> set (map fst MODES)" and "u \<notin> set objectPrototypeKeys"
  shows "map fst MODES =
           [''cube'', ''ship'', ''ball'', ''ufo'', ''wave'', ''robot'', ''spider'', ''swing''] \<and>
         (\<exists>e. MODES_get k = Some e \<and> (k, e) \<in> set MODES \<and>
              (\<exists>w'. fixedPhysics interact dt (w \<lparr> mode := k \<rparr>) = Inr w')) \<and>
         MODES_get u = None \<and> fixedPhysics interact dt (w \<lparr> mode := u \<rparr>) = Inl TypeError"
proof -
  have names: "map fst MODES =
      [''cube'', ''ship'', ''ball'', ''ufo'', ''wave'', ''robot'', ''spider'', ''swing'']"
    by (simp add: MODES_def)
  from assms(1) obtain e where e: "map_of MODES k = Some e"
    by (cases "map_of MODES k") (auto simp: map_of_eq_None_iff)
  then have mem: "(k, e) \<in> set MODES" by (rule map_of_SomeD)
  have getk: "MODES_get k = Some e" using e by (simp add: MODES_get_def)
  then have runs: "\<exists>w'. fixedPhysics interact dt (w \<lparr> mode := k \<rparr>) = Inr w'"
    by (simp add: fixedPhysics_def)
  from assms(2) have "map_of MODES u = None" by (simp add: map_of_eq_None_iff)
  then have getu: "MODES_get u = None" using assms(3) by (simp add: MODES_get_def)
  then have "fixedPhysics interact dt (w \<lparr> mode := u \<rparr>) = Inl TypeError"
    by (simp add: fixedPhysics_def)
  with names getk mem runs getu show ?thesis by blast
qed

text \<open>C2 at the mode \<open>cube\<close> and the unknown identifier \<open>dart\<close>.\<close>

theorem unknown_mode_throws_TypeError_witness:
  "''cube'' \<in> set (map fst MODES) \<and> ''dart'' \<notin> set (map fst MODES) \<and>
   ''dart'' \<notin> set objectPrototypeKeys \<and> MODES_get ''cube'' = Some cube_entry \<and>
   fixedPhysics noInteract (Fin FIXED_DT) (atRest \<lparr> mode := ''dart'' \<rparr>) = Inl TypeError"
proof -
  have h: "''cube'' \<in> set (map fst MODES)" "''dart'' \<notin> set (map fst MODES)"
    "''dart'' \<notin> set objectPrototypeKeys"
    by (simp_all add: MODES_def objectPrototypeKeys_def)
  show ?thesis
    using h unknown_mode_throws_TypeError [OF h, of noInteract "Fin FIXED_DT" atRest]
    by (simp add: MODES_get_simps)
qed

text \<open>
  C2 as stated fails: \<open>constructor\<close> is not one of the eight modes, yet \<open>MODES[constructor]\<close>
  is the inherited member, no field of which is defined, and the tick returns.
\<close>

theorem inherited_name_lookup_succeeds:
  "''constructor'' \<notin> set (map fst MODES) \<and> MODES_get ''constructor'' = Some noFields \<and>
   resultOf mode (fixedPhysics noInteract (Fin FIXED_DT) unknownMode) = Some ''constructor''"
  by (simp add: tick_defs world_defs)

subsection \<open>C3: mini in a mode without \<open>miniGravity\<close>\<close>

text \<open>
  C3, as the code has it: for a mini player in ship, ball, wave, spider or swing, the
  entry has no \<open>miniGravity\<close>, \<open>miniFactorG\<close> is \<open>NaN\<close> and the gravity step makes \<open>vy\<close>
  \<open>NaN\<close>. In ship, ball and swing, and in spider on a tick without \<open>justPressed\<close>, \<open>vy\<close>
  is still \<open>NaN\<close> after the switch, and \<open>vy\<close> and \<open>y\<close> are \<open>NaN\<close> after the tick, whatever the
  candidates and the interaction handler.
\<close>

theorem mini_gravity_undefined_gives_NaN:
  assumes "mini w"
    and "mode w \<in> {''ship'', ''ball'', ''wave'', ''spider'', ''swing''}"
  shows "\<exists>m. MODES_get (mode w) = Some m \<and> miniGravity m = None \<and>
             miniFactorG m w = NaN \<and> vy (afterGravity m dt w) = NaN \<and>
             (mode w \<noteq> ''wave'' \<and> (mode w = ''spider'' \<longrightarrow> \<not> justPressed w) \<longrightarrow>
                vy (afterMode m dt w) = NaN \<and>
                resultOf vy (fixedPhysics interact dt w) = Some NaN \<and>
                resultOf py (fixedPhysics interact dt w) = Some NaN)"
proof -
  from assms(2) obtain m where m: "MODES_get (mode w) = Some m" "miniGravity m = None"
    by (auto simp: MODES_get_simps no_miniGravity)
  have gn: "miniFactorG m w = NaN" "g m w = NaN" using mini_g_NaN [OF assms(1) m(2)] by simp_all
  have ag: "vy (afterGravity m dt w) = NaN" using gn(2) by (rule afterGravity_NaN)
  have rest: "vy (afterMode m dt w) = NaN \<and>
        resultOf vy (fixedPhysics interact dt w) = Some NaN \<and>
        resultOf py (fixedPhysics interact dt w) = Some NaN"
    if h: "mode w \<noteq> ''wave''" "mode w = ''spider'' \<longrightarrow> \<not> justPressed w"
  proof -
    have ne: "mode w \<noteq> ''cube''" "mode w \<noteq> ''ufo''" "mode w \<noteq> ''robot''"
      using assms(2) by auto
    have am: "vy (afterMode m dt w) = NaN"
      using afterMode_NaN [OF ag h(1) ne(1) ne(2) ne(3) h(2)] .
    show ?thesis using am tick_of_NaN [OF m(1) am ne(1)] by simp
  qed
  show ?thesis using m gn(1) ag rest by blast
qed

text \<open>C3 at a mini spider with no key down.\<close>

theorem mini_gravity_undefined_gives_NaN_witness:
  "mini miniSpider \<and> mode miniSpider \<in> {''ship'', ''ball'', ''wave'', ''spider'', ''swing''} \<and>
   mode miniSpider \<noteq> ''wave'' \<and> mode miniSpider = ''spider'' \<and> \<not> justPressed miniSpider \<and>
   vy (afterGravity spider_entry (Fin FIXED_DT) miniSpider) = NaN \<and>
   resultOf vy (fixedPhysics noInteract (Fin FIXED_DT) miniSpider) = Some NaN \<and>
   resultOf py (fixedPhysics noInteract (Fin FIXED_DT) miniSpider) = Some NaN"
proof -
  have h: "mini miniSpider"
    "mode miniSpider \<in> {''ship'', ''ball'', ''wave'', ''spider'', ''swing''}"
    by (simp_all add: world_defs atRest_def)
  have k: "mode miniSpider \<noteq> ''wave''" "mode miniSpider = ''spider''" "\<not> justPressed miniSpider"
    "MODES_get (mode miniSpider) = Some spider_entry"
    by (simp_all add: world_defs atRest_def justPressed_def inputNow_def MODES_get_simps)
  show ?thesis
    using h k mini_gravity_undefined_gives_NaN [OF h, of "Fin FIXED_DT" noInteract] by auto
qed

text \<open>
  C3 as stated fails for spider: on a tick with \<open>justPressed\<close> the spider case assigns
  \<open>vy = -jump * flipY\<close>, so after the tick \<open>vy\<close> is 11.5 and not \<open>NaN\<close>.
\<close>

theorem mini_spider_press_overwrites_NaN:
  "mini miniSpiderPress \<and> mode miniSpiderPress = ''spider'' \<and>
   resultOf vy (fixedPhysics noInteract (Fin FIXED_DT) miniSpiderPress) = Some (Fin 11.5)"
  by (simp add: tick_defs world_defs)

subsection \<open>C4: the rotation of the cube\<close>

text \<open>
  C4, as the code has it: when the mode is cube after the collisions and the rotation
  there is the finite value \<open>a\<close>, the rotation after the tick is the remainder
  \<open>a - 360 * trunc (a / 360)\<close>. It lies strictly between -360 and 360, never has the
  sign opposite to \<open>a\<close> and is no larger than \<open>a\<close> in magnitude: in \<open>[0, 360)\<close> for
  \<open>a \<ge> 0\<close>, in \<open>(-360, 0]\<close> for \<open>a \<le> 0\<close>.
\<close>

theorem cube_rotation_remainder_range:
  assumes "MODES_get (mode w) = Some m"
    and "u = updateCollisions interact dt (integrateY dt (afterMode m dt w))"
    and "mode u = ''cube''" and "rotation u = Fin a"
  shows "\<exists>r. resultOf rotation (fixedPhysics interact dt w) = Some (Fin r) \<and>
             r = a - 360 * of_int (trunc (a / 360)) \<and>
             - 360 < r \<and> r < 360 \<and> 0 \<le> a * r \<and> \<bar>r\<bar> \<le> \<bar>a\<bar>"
proof -
  have "resultOf rotation (fixedPhysics interact dt w) = Some (jrem (Fin a) (Fin 360))"
    using assms by (simp add: fixedPhysics_def resultOf_def postCollision_def)
  then show ?thesis using jrem_360 [of a] by auto
qed

text \<open>C4 at a mirrored cube in the air, whose rotation before the remainder is -3.\<close>

theorem cube_rotation_remainder_range_witness:
  "MODES_get (mode mirroredCube) = Some cube_entry \<and>
   mode (updateCollisions noInteract (Fin FIXED_DT)
          (integrateY (Fin FIXED_DT) (afterMode cube_entry (Fin FIXED_DT) mirroredCube))) = ''cube'' \<and>
   rotation (updateCollisions noInteract (Fin FIXED_DT)
          (integrateY (Fin FIXED_DT) (afterMode cube_entry (Fin FIXED_DT) mirroredCube))) = Fin (- 3) \<and>
   (\<exists>r. resultOf rotation (fixedPhysics noInteract (Fin FIXED_DT) mirroredCube) = Some (Fin r) \<and>
        - 360 < r \<and> r \<le> 0)"
proof -
  have h: "MODES_get (mode mirroredCube) = Some cube_entry"
    "mode (updateCollisions noInteract (Fin FIXED_DT)
          (integrateY (Fin FIXED_DT) (afterMode cube_entry (Fin FIXED_DT) mirroredCube))) = ''cube''"
    "rotation (updateCollisions noInteract (Fin FIXED_DT)
          (integrateY (Fin FIXED_DT) (afterMode cube_entry (Fin FIXED_DT) mirroredCube))) = Fin (- 3)"
    by (simp_all add: tick_defs world_defs)
  from cube_rotation_remainder_range [OF h(1) refl h(2) h(3)] obtain r where
    r: "resultOf rotation (fixedPhysics noInteract (Fin FIXED_DT) mirroredCube) = Some (Fin r)"
      "- 360 < r" "0 \<le> - 3 * r"
    by blast
  from r(3) have "r \<le> 0" by simp
  with h r(1,2) show ?thesis by blast
qed

text \<open>
  C4 as stated fails: a mirrored cube that starts a tick with rotation 0 in the air has
  \<open>vx = -14\<close>, its rotation becomes -3, and \<open>-3 % 360\<close> is -3, outside \<open>[0, 360)\<close>.
\<close>

theorem cube_rotation_negative_after_tick:
  "mode mirroredCube = ''cube'' \<and>
   resultOf rotation (fixedPhysics noInteract (Fin FIXED_DT) mirroredCube) = Some (Fin (- 3))"
  by (simp add: tick_defs world_defs jrem_small del: jrem.simps)

subsection \<open>C5: the X pass\<close>

text \<open>
  C5 says that in the X pass every candidate block that overlaps the box of the player is
  met by a snap of \<open>x\<close> to the near edge of the block. The X loop does visit every
  candidate, but its test is \<open>collides\<close>, which never reports an overlap, so the X pass
  leaves every state as it is. A cube at \<open>x = 0\<close> that moves right, with a block whose
  left edge is at 10 overlapping the box that the loop builds, keeps \<open>x = 0\<close>, where the
  claim has the left edge minus the half width, 2.5; over a whole tick \<open>x\<close> only moves by
  \<open>vx * dt\<close>.
\<close>

theorem x_pass_never_snaps:
  "xPass hb cs w = w \<and>
   otype wall = ''block'' \<and> jgt (vx cubeAtWall) (Fin 0) \<and>
   quadTree_query cubeAtWall (getHitbox cubeAtWall) = [wall] \<and>
   specOverlap \<lparr> hx = px cubeAtWall, hy = hy (getHitbox cubeAtWall),
                 hw = hw (getHitbox cubeAtWall), hh = hh (getHitbox cubeAtWall) \<rparr> wall \<and>
   collides \<lparr> hx = px cubeAtWall, hy = hy (getHitbox cubeAtWall),
              hw = hw (getHitbox cubeAtWall), hh = hh (getHitbox cubeAtWall) \<rparr> wall = False \<and>
   px (xPass (getHitbox cubeAtWall) (quadTree_query cubeAtWall (getHitbox cubeAtWall)) cubeAtWall)
     = Fin 0 \<and>
   jsub (ox wall) (jdiv (hw (getHitbox cubeAtWall)) (Fin 2)) = Fin 2.5 \<and>
   resultOf px (fixedPhysics noInteract (Fin FIXED_DT) cubeAtWall) = Some (Fin (7 / 30))"
proof -
  have "xPass hb cs w = w" by (rule xPass_never_moves)
  moreover have
    "otype wall = ''block''" "jgt (vx cubeAtWall) (Fin 0)"
    "quadTree_query cubeAtWall (getHitbox cubeAtWall) = [wall]"
    "specOverlap \<lparr> hx = px cubeAtWall, hy = hy (getHitbox cubeAtWall),
                 hw = hw (getHitbox cubeAtWall), hh = hh (getHitbox cubeAtWall) \<rparr> wall"
    "collides \<lparr> hx = px cubeAtWall, hy = hy (getHitbox cubeAtWall),
              hw = hw (getHitbox cubeAtWall), hh = hh (getHitbox cubeAtWall) \<rparr> wall = False"
    "px (xPass (getHitbox cubeAtWall) (quadTree_query cubeAtWall (getHitbox cubeAtWall))
          cubeAtWall) = Fin 0"
    "jsub (ox wall) (jdiv (hw (getHitbox cubeAtWall)) (Fin 2)) = Fin 2.5"
    "resultOf px (fixedPhysics noInteract (Fin FIXED_DT) cubeAtWall) = Some (Fin (7 / 30))"
    by (simp_all add: tick_defs world_defs specOverlap_def)
  ultimately show ?thesis by simp
qed

subsection \<open>C6: the wave\<close>

text \<open>
  C6 says that in wave mode \<open>vy\<close> is set to \<open>flipY * speedMult\<close> times -1.35 when holding
  and +1.35 when not. The table stores \<open>ampHold\<close> as a negative number and the wave case
  negates it again, so with \<open>flipY = 1\<close> and \<open>speedMult = 1\<close> the tick gives \<open>vy = 1.35\<close>
  both when the key is held and when it is not.
\<close>

theorem wave_vy_same_holding_or_not:
  "inputNow waveHolding \<and> \<not> inputNow waveReleased \<and>
   resultOf vy (fixedPhysics noInteract (Fin FIXED_DT) waveHolding) = Some (Fin 1.35) \<and>
   resultOf vy (fixedPhysics noInteract (Fin FIXED_DT) waveReleased) = Some (Fin 1.35)"
  by (simp add: tick_defs world_defs)

subsection \<open>C7: the charge of the robot\<close>

text \<open>
  C7 says that after holding the input for 20 ticks or more, the jump of the robot at the
  next \<open>justPressed\<close> uses the full charge and has impulse \<open>jumpMax = 16\<close>. A robot has
  the ground flag set and the key down; it holds for 25 more frames (\<open>holdTime\<close> reaches
  26), releases for one frame, which sets \<open>holdTime\<close> to 0 while the flag is still set, and
  presses again: at that press \<open>holdTime\<close> is one frame, the charge is 1/20 and \<open>vy\<close> is
  \<open>-(10.34 + 5.66 / 20) = -10.623\<close>. The same holds from any state with the flag true and
  \<open>holdTime = 25\<close>, with no candidate at all.
\<close>

theorem robot_press_after_long_hold_is_short_jump:
  "resultOf holdTime (run noInteract (Fin FIXED_DT) (replicate 25 {''Space''}) robotOnFloor)
     = Some (Fin 26) \<and>
   resultOf isOnGround
     (run noInteract (Fin FIXED_DT) (replicate 25 {''Space''} @ [{}]) robotOnFloor)
     = Some True \<and>
   resultOf holdTime
     (run noInteract (Fin FIXED_DT) (replicate 25 {''Space''} @ [{}, {''Space''}]) robotOnFloor)
     = Some (Fin 1) \<and>
   resultOf vy
     (run noInteract (Fin FIXED_DT) (replicate 25 {''Space''} @ [{}, {''Space''}]) robotOnFloor)
     = Some (Fin (- 10.623)) \<and>
   resultOf vy
     (run noInteract (Fin FIXED_DT) [{}, {''Space''}]
        (atRest \<lparr> mode := ''robot'', isOnGround := True, lastInput := True, holdTime := Fin 25 \<rparr>))
     = Some (Fin (- 10.623))"
  by (simp add: tick_defs world_defs eval_nat_numeral)

subsection \<open>C8: the clamp of the ufo\<close>

text \<open>
  C8: in ufo mode, with finite \<open>vy\<close>, \<open>flipY\<close> and \<open>dt\<close> and a finite speed multiplier
  \<open>s \<ge> 0\<close>, the velocity after the switch satisfies \<open>|vy| \<le> vyClamp * s\<close>; so it does
  after the X and Y passes, for any hitbox and candidates, and at the end of the tick when
  the interaction handler does not write \<open>vy\<close>.
\<close>

theorem ufo_vy_clamped:
  assumes "mode w = ''ufo''" and "vy w = Fin v" and "flipY w = Fin f" and "dt = Fin d"
    and "speedMult w = Fin s" and "0 \<le> s"
  shows "\<exists>m c. MODES_get (mode w) = Some m \<and> vyClamp m = Some c \<and>
           (\<exists>r. vy (afterMode m dt w) = Fin r \<and> \<bar>r\<bar> \<le> c * s) \<and>
           (\<exists>r. vy (yPass hb cs (xPass hb cs (integrateY dt (afterMode m dt w)))) = Fin r \<and>
                \<bar>r\<bar> \<le> c * s) \<and>
           ((\<forall>ob u. vy (interact ob u) = vy u) \<longrightarrow>
              (\<exists>r. resultOf vy (fixedPhysics interact dt w) = Some (Fin r) \<and> \<bar>r\<bar> \<le> c * s))"
proof -
  have m: "MODES_get (mode w) = Some ufo_entry" "vyClamp ufo_entry = Some 8"
    using assms(1) by (simp_all add: MODES_get_simps entry_defs)
  obtain r where r: "vy (afterMode ufo_entry dt w) = Fin r" "\<bar>r\<bar> \<le> 8 * s"
    using ufo_afterMode [OF assms] by blast
  have z: "\<bar>0::real\<bar> \<le> 8 * s" using assms(6) by simp
  have coll: "\<exists>q. vy (yPass hb' cs' (xPass hb' cs' (integrateY dt (afterMode ufo_entry dt w)))) = Fin q
        \<and> \<bar>q\<bar> \<le> 8 * s" for hb' cs'
    using yPass_vy [of hb' cs' "xPass hb' cs' (integrateY dt (afterMode ufo_entry dt w))"] r z
    by (auto simp: integrateY_def)
  have full: "\<exists>q. resultOf vy (fixedPhysics interact dt w) = Some (Fin q) \<and> \<bar>q\<bar> \<le> 8 * s"
    if h: "\<forall>ob u. vy (interact ob u) = vy u"
  proof -
    let ?u = "integrateY dt (afterMode ufo_entry dt w)"
    have "vy (updateCollisions interact dt ?u) =
        vy (yPass (getHitbox ?u) (quadTree_query ?u (getHitbox ?u))
             (xPass (getHitbox ?u) (quadTree_query ?u (getHitbox ?u)) ?u))"
      using h by (simp add: updateCollisions_def Let_def interactPass_keeps [of vy])
    then show ?thesis using coll m(1)
      by (simp add: fixedPhysics_def resultOf_def)
  qed
  show ?thesis using m r coll full by blast
qed

text \<open>C8 at a ufo falling at 100 with speed multiplier 1.\<close>

theorem ufo_vy_clamped_witness:
  "mode ufoFalling = ''ufo'' \<and> vy ufoFalling = Fin 100 \<and> flipY ufoFalling = Fin 1 \<and>
   speedMult ufoFalling = Fin 1 \<and> (0::real) \<le> 1 \<and>
   (\<forall>ob u. vy (noInteract ob u) = vy u) \<and>
   (\<exists>r. resultOf vy (fixedPhysics noInteract (Fin FIXED_DT) ufoFalling) = Some (Fin r) \<and>
        \<bar>r\<bar> \<le> 8 * 1)"
proof -
  have h: "mode ufoFalling = ''ufo''" "vy ufoFalling = Fin 100" "flipY ufoFalling = Fin 1"
    "Fin FIXED_DT = Fin FIXED_DT" "speedMult ufoFalling = Fin 1" "(0::real) \<le> 1"
    by (simp_all add: world_defs atRest_def)
  have i: "\<forall>ob u. vy (noInteract ob u) = vy u" by (simp add: noInteract_def)
  have m: "MODES_get (mode ufoFalling) = Some ufo_entry" "vyClamp ufo_entry = Some 8"
    by (simp_all add: h(1) MODES_get_simps entry_defs)
  show ?thesis
    using h i m ufo_vy_clamped [OF h, of "getHitbox ufoFalling" "[]" noInteract] by auto
qed

subsection \<open>C9: the trail\<close>

lemma trail_shift_push:
  assumes "fixedPhysics interact dt w = Inr w'"
    and "\<forall>ob u. trail (interact ob u) = trail u"
  shows "trail w' = tl (trail w) @ [\<lparr> sx = px w', sy = py w', rot = rotation w' \<rparr>] \<and>
         length (trail w') = max 1 (length (trail w))"
proof -
  from assms(1) obtain m where m: "MODES_get (mode w) = Some m"
    by (cases "MODES_get (mode w)") (simp_all add: fixedPhysics_def)
  let ?u = "postCollision (updateCollisions interact dt (integrateY dt (afterMode m dt w)))"
  have w': "w' = trailUpdate ?u" using assms(1) m by (simp add: fixedPhysics_def)
  have "trail ?u = trail w"
    using assms(2)
    by (simp add: updateCollisions_def Let_def interactPass_keeps [of trail] afterMode_fields)
  then have "trail w' = tl (trail w) @ [\<lparr> sx = px w', sy = py w', rot = rotation w' \<rparr>]"
    by (simp add: w') (simp add: trailUpdate_def)
  then show ?thesis by (cases "trail w") simp_all
qed

text \<open>
  C9 says that every tick puts the current sample at the front of the trail (newest
  first) and cuts the trail to its capacity of 20 (5 for the wave). The earlier \<open>update\<close>
  does so (\<open>unshift\<close>, then \<open>pop\<close> beyond 20); \<open>fixedPhysics\<close> calls \<open>shift\<close> and then
  \<open>push\<close>. A cube whose trail holds two samples, well below the capacity, loses the
  first of them and gets the new sample as the last one, where the claim has the new
  sample first and both old ones after it. A player that starts with an empty trail has
  one sample after three ticks, not three.
\<close>

theorem trail_shift_push_loses_history:
  "trail cubeWithTrail = [firstSample, secondSample] \<and>
   resultOf trail (fixedPhysics noInteract (Fin FIXED_DT) cubeWithTrail)
     = Some [secondSample, \<lparr> sx = Fin (7 / 30), sy = Fin (1 / 7200), rot = Fin 3 \<rparr>] \<and>
   resultOf px (fixedPhysics noInteract (Fin FIXED_DT) cubeWithTrail) = Some (Fin (7 / 30)) \<and>
   resultOf py (fixedPhysics noInteract (Fin FIXED_DT) cubeWithTrail) = Some (Fin (1 / 7200)) \<and>
   resultOf rotation (fixedPhysics noInteract (Fin FIXED_DT) cubeWithTrail) = Some (Fin 3) \<and>
   trail atRest = [] \<and>
   resultOf (length \<circ> trail) (run noInteract (Fin FIXED_DT) [{}, {}, {}] atRest) = Some 1"
  by (simp add: tick_defs world_defs jrem_small del: jrem.simps)

subsection \<open>C10: the decay of the spider\<close>

text \<open>
  C10: in spider mode, not mini, on a tick without \<open>justPressed\<close> and with finite \<open>vy\<close>,
  \<open>flipY\<close> and \<open>dt\<close>, the gravity is 0 and leaves \<open>vy\<close> as it is, the switch leaves \<open>flipY\<close>
  as it is and multiplies \<open>vy\<close> by the decay 0.92, so \<open>|vy|\<close> becomes \<open>0.92 * |vy|\<close> and
  does not grow. With no candidates and the same keys down in every frame, \<open>vy\<close> after
  \<open>n\<close> ticks is \<open>0.92 ^ n\<close> times the first one.
\<close>

theorem spider_vy_decays:
  assumes "mode w = ''spider''" and "\<not> mini w" and "\<not> justPressed w"
    and "vy w = Fin v" and "flipY w = Fin f" and "dt = Fin d"
  shows "\<exists>m. MODES_get (mode w) = Some m \<and> decay m = Some 0.92 \<and> g m w = Fin 0 \<and>
           vy (afterGravity m dt w) = Fin v \<and>
           flipY (afterMode m dt w) = flipY w \<and>
           vy (afterMode m dt w) = Fin (0.92 * v) \<and>
           \<bar>0.92 * v\<bar> = 0.92 * \<bar>v\<bar> \<and> \<bar>0.92 * v\<bar> \<le> \<bar>v\<bar> \<and>
           ((\<forall>hb. quadTree_query w hb = []) \<longrightarrow>
              resultOf vy (run interact dt (replicate n (keys w)) w) = Some (Fin (0.92 ^ n * v)))"
proof -
  have m: "MODES_get (mode w) = Some spider_entry" "decay spider_entry = Some 0.92"
    using assms(1) by (simp_all add: MODES_get_simps entry_defs)
  have a: "\<bar>0.92 * v\<bar> = 0.92 * \<bar>v\<bar>" "\<bar>0.92 * v\<bar> \<le> \<bar>v\<bar>"
    by (simp_all add: abs_mult)
  have r: "resultOf vy (run interact dt (replicate n (keys w)) w) = Some (Fin (0.92 ^ n * v))"
    if "\<forall>hb. quadTree_query w hb = []"
    using spider_run [OF assms that refl] .
  show ?thesis using m spider_mode_step [OF assms] a r by blast
qed

text \<open>C10 at a spider moving at 10 with no key down, for one switch and for two ticks.\<close>

theorem spider_vy_decays_witness:
  "mode spiderSettling = ''spider'' \<and> \<not> mini spiderSettling \<and> \<not> justPressed spiderSettling \<and>
   vy spiderSettling = Fin 10 \<and> flipY spiderSettling = Fin 1 \<and>
   (\<forall>hb. quadTree_query spiderSettling hb = []) \<and>
   vy (afterMode spider_entry (Fin FIXED_DT) spiderSettling) = Fin 9.2 \<and>
   resultOf vy (run noInteract (Fin FIXED_DT) (replicate 2 (keys spiderSettling)) spiderSettling)
     = Some (Fin 8.464)"
proof -
  have h: "mode spiderSettling = ''spider''" "\<not> mini spiderSettling"
    "\<not> justPressed spiderSettling" "vy spiderSettling = Fin 10" "flipY spiderSettling = Fin 1"
    "Fin FIXED_DT = Fin FIXED_DT"
    by (simp_all add: world_defs atRest_def justPressed_def inputNow_def)
  have q: "\<forall>hb. quadTree_query spiderSettling hb = []"
    by (simp add: world_defs atRest_def)
  have m: "MODES_get (mode spiderSettling) = Some spider_entry"
    by (simp add: h(1) MODES_get_simps)
  show ?thesis
    using h q m spider_vy_decays [OF h, of noInteract 2] by (auto simp: power2_eq_square)
qed

end
